theory Spec2Isabelle
  imports Main
begin

section \<open>The email notification processor\<close>

text \<open>
  A shallow embedding of \<^verbatim>\<open>NotificationsEmailProcessor.ts\<close>. The class is a record of
  its read-only fields; the one field it assigns after construction (\<^verbatim>\<open>transporter\<close>)
  lives in the world, next to the cache contents, the clock and the trace of the calls
  made on the collaborators (cache, auth, catalog, transport, logger). Every method takes
  the world and returns it updated; a thrown error is \<open>Inl\<close>.
\<close>

subsection \<open>JavaScript values\<close>

datatype error = Error string | TypeError string

text \<open>\<^verbatim>\<open>`${e}`\<close>: the name alone when the message is empty, else the name, a colon and the message.\<close>

fun error_to_string :: "error \<Rightarrow> string" where
  "error_to_string (Error m) = (if m = [] then ''Error'' else ''Error: '' @ m)"
| "error_to_string (TypeError m) = (if m = [] then ''TypeError'' else ''TypeError: '' @ m)"

text \<open>
  \<^verbatim>\<open>notification.user\<close>: a string or \<^verbatim>\<open>null\<close> by its declared type; \<^verbatim>\<open>undefined\<close> is
  what a missing field reads as at run time.
\<close>

datatype js_ref = Null | Undefined | Ref string

fun ref_to_string :: "js_ref \<Rightarrow> string" where
  "ref_to_string Null = ''null''"
| "ref_to_string Undefined = ''undefined''"
| "ref_to_string (Ref s) = s"

text \<open>An optional string in a condition: \<^verbatim>\<open>undefined\<close> and \<^verbatim>\<open>''\<close> are falsy.\<close>

definition truthy :: "string option \<Rightarrow> bool" where
  "truthy s = (case s of None \<Rightarrow> False | Some v \<Rightarrow> v \<noteq> [])"

text \<open>An optional string in a template literal.\<close>

definition opt_to_string :: "string option \<Rightarrow> string" where
  "opt_to_string s = (case s of None \<Rightarrow> ''undefined'' | Some v \<Rightarrow> v)"

text \<open>\<^verbatim>\<open>Array.prototype.join\<close> on an array of strings.\<close>

fun join :: "string \<Rightarrow> string list \<Rightarrow> string" where
  "join sep [] = []"
| "join sep [x] = x"
| "join sep (x # y # ys) = x @ sep @ join sep (y # ys)"

text \<open>\<^verbatim>\<open>[...new Set(xs)]\<close>: the elements in the order of their first insertion.\<close>

definition new_Set :: "'a list \<Rightarrow> 'a list" where
  "new_Set xs = foldl (\<lambda>acc x. if x \<in> set acc then acc else acc @ [x]) [] xs"

text \<open>lodash \<^verbatim>\<open>compact\<close> on an array of optional strings: the falsy entries are dropped.\<close>

fun compact :: "string option list \<Rightarrow> string list" where
  "compact [] = []"
| "compact (None # xs) = compact xs"
| "compact (Some s # xs) = (if s = [] then compact xs else s # compact xs)"

subsection \<open>Data model\<close>

record payload =
  title :: string
  description :: "string option"
  link :: "string option"

record notification =
  notification_id :: string
  user :: js_ref
  payload :: payload

text \<open>\<^verbatim>\<open>NotificationSendOptions\<close>: only \<^verbatim>\<open>recipients.type\<close> is read.\<close>

record send_options =
  recipients_type :: string

text \<open>\<^verbatim>\<open>Mail.Options\<close>, with the fields the processor fills.\<close>

record mail_options =
  mail_from :: string
  mail_subject :: "string option"
  mail_html :: "string option"
  mail_text :: "string option"
  mail_replyTo :: "string option"
  mail_to :: "string option"

text \<open>
  Modelled from the spec: the \<^verbatim>\<open>NotificationTemplateRenderer\<close> interface is declared in
  \<^verbatim>\<open>../extensions\<close>, outside the source at hand. Section 6 gives it three optional
  accessors, each from a notification to an optional string.
\<close>

record renderer =
  getSubject :: "(notification \<Rightarrow> string option) option"
  getHtml :: "(notification \<Rightarrow> string option) option"
  getText :: "(notification \<Rightarrow> string option) option"

text \<open>A user entity of the catalog: \<^verbatim>\<open>spec.profile?.email\<close>.\<close>

record profile =
  email :: "string option"

record entity =
  spec_profile :: "profile option"

definition entity_email :: "entity \<Rightarrow> string option" where
  "entity_email e = (case spec_profile e of None \<Rightarrow> None | Some pr \<Rightarrow> email pr)"

subsection \<open>Configuration\<close>

text \<open>
  Modelled from the spec: the \<^verbatim>\<open>Config\<close> reader belongs to \<^verbatim>\<open>@backstage/config\<close>, outside
  the source at hand. Section 6 lists the keys the source reads with \<^verbatim>\<open>getString\<close>
  (\<^verbatim>\<open>sender\<close>, \<^verbatim>\<open>transport.transport\<close>) as required and the keys it reads with a
  \<^verbatim>\<open>getOptional\<close> reader as having a default: a required read of a key that has no value
  raises, an optional read returns \<^verbatim>\<open>undefined\<close>.
\<close>

datatype config_value = ConfigString string | ConfigStringArray "string list" | ConfigNumber nat

type_synonym config = "(string \<times> config_value) list"

definition getString :: "config \<Rightarrow> string \<Rightarrow> error + string" where
  "getString c key =
     (case map_of c key of
        None \<Rightarrow> Inl (Error (''Missing required config value at '' @ key))
      | Some (ConfigString s) \<Rightarrow> Inr s
      | Some _ \<Rightarrow> Inl (Error (''Invalid type in config for key '' @ key)))"

definition getOptionalStringArray :: "config \<Rightarrow> string \<Rightarrow> error + string list option" where
  "getOptionalStringArray c key =
     (case map_of c key of
        None \<Rightarrow> Inr None
      | Some (ConfigStringArray xs) \<Rightarrow> Inr (Some xs)
      | Some _ \<Rightarrow> Inl (Error (''Invalid type in config for key '' @ key)))"

subsection \<open>Collaborators\<close>

text \<open>
  \<^verbatim>\<open>AuthService\<close> and \<^verbatim>\<open>CatalogClient\<close> are taken as parameters: what each call answers,
  an error or a value.
\<close>

record auth_service =
  getOwnServiceCredentials :: "error + string"
  getPluginRequestToken :: "string \<Rightarrow> string \<Rightarrow> error + string"

record catalog_client =
  getEntities :: "string \<Rightarrow> error + entity list"
  getEntityByRef :: "js_ref \<Rightarrow> string \<Rightarrow> error + entity option"

text \<open>A transport handle: \<^verbatim>\<open>sendMail\<close> answers nothing or rejects with an error.\<close>

datatype transporter = Transporter (transporter_sendMail: "mail_options \<Rightarrow> error option")

text \<open>The three constructors of \<^verbatim>\<open>./transports\<close>, taken as parameters.\<close>

record transports =
  createSmtpTransport :: "config \<Rightarrow> error + transporter"
  createSesTransport :: "config \<Rightarrow> error + transporter"
  createSendmailTransport :: "config \<Rightarrow> error + transporter"

subsection \<open>The processor and the world\<close>

text \<open>
  The fields of the class as the constructor leaves them. \<^verbatim>\<open>cache\<close> says whether a
  \<^verbatim>\<open>CacheService\<close> was supplied; its contents are in the world.
\<close>

record processor =
  broadcastConfig :: "config option"
  transportConfig :: config
  sender :: string
  replyTo :: "string option"
  cacheTtl :: nat
  concurrencyLimit :: nat
  throttleInterval :: nat
  cache :: bool
  templateRenderer :: "renderer option"
  auth :: auth_service
  catalog :: catalog_client
  transports :: transports

datatype event =
    CacheGet string
  | CacheSet string "string list" nat
  | AuthGetOwnServiceCredentials
  | AuthGetPluginRequestToken
  | CatalogGetEntities
  | CatalogGetEntityByRef js_ref
  | ThrottleAdmit nat
  | TransportSendMail mail_options
  | LoggerError string
  | LoggerInfo string

text \<open>
  \<open>now\<close> is the clock in milliseconds; \<open>cache_store\<close> holds, for each key, the value and
  the time at which it expires; \<open>trace\<close> lists the calls on the collaborators, oldest
  first. \<open>ThrottleAdmit t\<close> is the throttle starting a send at time \<open>t\<close>.
\<close>

record world =
  now :: nat
  cache_store :: "(string \<times> string list \<times> nat) list"
  transporter :: "transporter option"
  trace :: "event list"

definition emit :: "event \<Rightarrow> world \<Rightarrow> world" where
  "emit e w = w\<lparr>trace := trace w @ [e]\<rparr>"

text \<open>
  Modelled from the spec: the \<^verbatim>\<open>CacheService\<close> is not part of the source at hand. Section 6
  gives it a typed get and a set with a time-to-live in milliseconds, neither throwing:
  an entry answers until its time-to-live has passed, then the key is absent.
  \<^verbatim>\<open>this.cache?.get\<close> and \<^verbatim>\<open>this.cache?.set\<close> do nothing when no cache was supplied.
\<close>

definition cache_get :: "processor \<Rightarrow> string \<Rightarrow> world \<Rightarrow> string list option \<times> world" where
  "cache_get p key w =
     (if cache p then
        (case map_of (cache_store w) key of
           None \<Rightarrow> (None, emit (CacheGet key) w)
         | Some (v, expires) \<Rightarrow>
             (if now w < expires then Some v else None, emit (CacheGet key) w))
      else (None, w))"

definition cache_set :: "processor \<Rightarrow> string \<Rightarrow> string list \<Rightarrow> nat \<Rightarrow> world \<Rightarrow> world" where
  "cache_set p key v ttl w =
     (if cache p then
        emit (CacheSet key v ttl)
          (w\<lparr>cache_store := (key, v, now w + ttl) # filter (\<lambda>kv. fst kv \<noteq> key) (cache_store w)\<rparr>)
      else w)"

subsection \<open>Methods\<close>

text \<open>
  Each definition carries the name of the method it embeds. Three expressions of the
  source get a name of their own: the token request that both resolutions make
  (\<open>getCatalogToken\<close>), and the \<^verbatim>\<open>mailOptions\<close> literals of \<^verbatim>\<open>sendPlainEmail\<close> and
  \<^verbatim>\<open>sendTemplateEmail\<close> (\<open>plain_mailOptions\<close>, \<open>template_mailOptions\<close>).
\<close>

definition getTransporter :: "processor \<Rightarrow> world \<Rightarrow> (error + transporter) \<times> world" where
  "getTransporter p w =
     (case transporter w of
        Some t \<Rightarrow> (Inr t, w)
      | None \<Rightarrow>
          (case getString (transportConfig p) ''transport'' of
             Inl e \<Rightarrow> (Inl e, w)
           | Inr transport \<Rightarrow>
               (case
                  (if transport = ''smtp'' then createSmtpTransport (transports p) (transportConfig p)
                   else if transport = ''ses'' then createSesTransport (transports p) (transportConfig p)
                   else if transport = ''sendmail'' then
                     createSendmailTransport (transports p) (transportConfig p)
                   else Inl (Error (''Unsupported transport: '' @ transport)))
                of
                  Inl e \<Rightarrow> (Inl e, w)
                | Inr t \<Rightarrow> (Inr t, w\<lparr>transporter := Some t\<rparr>))))"

definition getName :: "processor \<Rightarrow> string" where
  "getName p = ''Email''"

text \<open>
  The token request both resolutions make:
  \<^verbatim>\<open>auth.getPluginRequestToken({onBehalfOf: await auth.getOwnServiceCredentials(), targetPluginId: 'catalog'})\<close>.
\<close>

definition getCatalogToken :: "processor \<Rightarrow> world \<Rightarrow> (error + string) \<times> world" where
  "getCatalogToken p w =
     (let w1 = emit AuthGetOwnServiceCredentials w in
      case getOwnServiceCredentials (auth p) of
        Inl e \<Rightarrow> (Inl e, w1)
      | Inr credentials \<Rightarrow>
          (getPluginRequestToken (auth p) credentials ''catalog'', emit AuthGetPluginRequestToken w1))"

definition getBroadcastEmails :: "processor \<Rightarrow> world \<Rightarrow> (error + string list) \<times> world" where
  "getBroadcastEmails p w =
     (case broadcastConfig p of
        None \<Rightarrow> (Inr [], w)
      | Some bc \<Rightarrow>
          (case getString bc ''receiver'' of
             Inl e \<Rightarrow> (Inl e, w)
           | Inr receiver \<Rightarrow>
               if receiver = ''none'' then (Inr [], w)
               else if receiver = ''config'' then
                 (case getOptionalStringArray bc ''receiverEmails'' of
                    Inl e \<Rightarrow> (Inl e, w)
                  | Inr None \<Rightarrow> (Inr [], w)
                  | Inr (Some receiverEmails) \<Rightarrow> (Inr receiverEmails, w))
               else if receiver = ''users'' then
                 (case cache_get p ''user-emails:all'' w of
                    (Some cached, w1) \<Rightarrow> (Inr cached, w1)
                  | (None, w1) \<Rightarrow>
                      (case getCatalogToken p w1 of
                         (Inl e, w2) \<Rightarrow> (Inl e, w2)
                       | (Inr token, w2) \<Rightarrow>
                           (case getEntities (catalog p) token of
                              Inl e \<Rightarrow> (Inl e, emit CatalogGetEntities w2)
                            | Inr items \<Rightarrow>
                                (let ret = compact (new_Set (map entity_email items))
                                 in (Inr ret,
                                     cache_set p ''user-emails:all'' ret (cacheTtl p)
                                       (emit CatalogGetEntities w2))))))
               else (Inl (Error (''Unsupported broadcast receiver: '' @ receiver)), w)))"

definition getUserEmail :: "processor \<Rightarrow> js_ref \<Rightarrow> world \<Rightarrow> (error + string list) \<times> world" where
  "getUserEmail p entityRef w =
     (let key = ''user-emails:'' @ ref_to_string entityRef in
      case cache_get p key w of
        (Some cached, w1) \<Rightarrow> (Inr cached, w1)
      | (None, w1) \<Rightarrow>
          (case getCatalogToken p w1 of
             (Inl e, w2) \<Rightarrow> (Inl e, w2)
           | (Inr token, w2) \<Rightarrow>
               (case getEntityByRef (catalog p) entityRef token of
                  Inl e \<Rightarrow> (Inl e, emit (CatalogGetEntityByRef entityRef) w2)
                | Inr ent \<Rightarrow>
                    (let ret = (case ent of
                                  None \<Rightarrow> []
                                | Some userEntity \<Rightarrow>
                                    (if truthy (entity_email userEntity)
                                     then [the (entity_email userEntity)] else []))
                     in (Inr ret,
                         cache_set p key ret (cacheTtl p)
                           (emit (CatalogGetEntityByRef entityRef) w2))))))"

definition getRecipientEmails ::
  "processor \<Rightarrow> notification \<Rightarrow> send_options \<Rightarrow> world \<Rightarrow> (error + string list) \<times> world" where
  "getRecipientEmails p n options w =
     (if recipients_type options = ''broadcast'' \<or> user n = Null
      then getBroadcastEmails p w
      else getUserEmail p (user n) w)"

text \<open>
  \<^verbatim>\<open>sendMail\<close>: the \<^verbatim>\<open>try\<close> covers the read of \<^verbatim>\<open>this.transporter.sendMail\<close>, which is a
  \<^verbatim>\<open>TypeError\<close> while the field is unset, and the send itself.
\<close>

definition sendMail :: "processor \<Rightarrow> mail_options \<Rightarrow> world \<Rightarrow> (error + unit) \<times> world" where
  "sendMail p options w =
     (case (case transporter w of
              None \<Rightarrow> (Some (TypeError ''Cannot read properties of undefined (reading sendMail)''), w)
            | Some t \<Rightarrow> (transporter_sendMail t options, emit (TransportSendMail options) w))
      of
        (None, w1) \<Rightarrow> (Inr (), w1)
      | (Some e, w1) \<Rightarrow>
          (Inr (),
           emit (LoggerError (''Failed to send email to '' @ opt_to_string (mail_to options)
                              @ '': '' @ error_to_string e)) w1))"

text \<open>\<^verbatim>\<open>Promise.all\<close> on promises already settled: the first rejection, if there is one.\<close>

fun promise_all :: "(error + unit) list \<Rightarrow> error + unit" where
  "promise_all [] = Inr ()"
| "promise_all (Inl e # rs) = Inl e"
| "promise_all (Inr u # rs) = promise_all rs"

text \<open>
  Modelled from the spec: the limiter is the \<^verbatim>\<open>p-throttle\<close> package, which is not part of
  the source at hand. Section 4.3 gives it a limit and a window length in milliseconds:
  sends up to the limit start at once, the following ones wait until the window permits.
  The state is the start of the current window and the number of sends started in it; a
  call is given the time at which its send starts. All calls of one dispatch are made at
  the instant the limiter is created (\<^verbatim>\<open>emails.map\<close> is synchronous), so the call time is
  not a parameter.
\<close>

record throttle =
  throttle_limit :: nat
  throttle_interval :: nat
  currentTick :: nat
  activeCount :: nat

definition pThrottle :: "nat \<Rightarrow> nat \<Rightarrow> nat \<Rightarrow> throttle" where
  "pThrottle limit interval t0 =
     \<lparr>throttle_limit = limit, throttle_interval = interval, currentTick = t0, activeCount = 0\<rparr>"

definition throttle_admit :: "throttle \<Rightarrow> nat \<times> throttle" where
  "throttle_admit th =
     (if activeCount th < throttle_limit th
      then (currentTick th, th\<lparr>activeCount := activeCount th + 1\<rparr>)
      else (currentTick th + throttle_interval th,
            th\<lparr>currentTick := currentTick th + throttle_interval th, activeCount := 1\<rparr>))"

text \<open>
  \<^verbatim>\<open>emails.map(email => throttled({...options, to: email}))\<close>. The throttle starts the
  calls in the order they were made, each at the time it was given; the model runs them
  one after the other in that order, with the clock moved to the start time of each, and
  takes a send to last no time.
\<close>

fun throttled_map ::
  "processor \<Rightarrow> throttle \<Rightarrow> mail_options \<Rightarrow> string list \<Rightarrow> world
   \<Rightarrow> (error + unit) list \<times> world" where
  "throttled_map p th options [] w = ([], w)"
| "throttled_map p th options (recipient # emails) w =
     (case throttle_admit th of
        (start, th1) \<Rightarrow>
          (case sendMail p (options\<lparr>mail_to := Some recipient\<rparr>)
                  (emit (ThrottleAdmit start) (w\<lparr>now := max (now w) start\<rparr>)) of
             (r, w1) \<Rightarrow>
               (case throttled_map p th1 options emails w1 of (rs, w2) \<Rightarrow> (r # rs, w2))))"

definition sendMails ::
  "processor \<Rightarrow> mail_options \<Rightarrow> string list \<Rightarrow> world \<Rightarrow> (error + unit) \<times> world" where
  "sendMails p options emails w =
     (let throttle = pThrottle (concurrencyLimit p) (throttleInterval p) (now w) in
      case throttled_map p throttle options emails w of (rs, w1) \<Rightarrow> (promise_all rs, w1))"

definition plain_contentParts :: "notification \<Rightarrow> string list" where
  "plain_contentParts n =
     (if truthy (description (payload n)) then [the (description (payload n))] else [])
     @ (if truthy (link (payload n)) then [the (link (payload n))] else [])"

definition plain_mailOptions :: "processor \<Rightarrow> notification \<Rightarrow> mail_options" where
  "plain_mailOptions p n =
     \<lparr>mail_from = sender p,
      mail_subject = Some (title (payload n)),
      mail_html = Some (''<p>'' @ join ''<br/>'' (plain_contentParts n) @ ''</p>''),
      mail_text = Some (join [CHR 0x0A, CHR 0x0A] (plain_contentParts n)),
      mail_replyTo = replyTo p,
      mail_to = None\<rparr>"

definition sendPlainEmail ::
  "processor \<Rightarrow> notification \<Rightarrow> string list \<Rightarrow> world \<Rightarrow> (error + unit) \<times> world" where
  "sendPlainEmail p n emails w = sendMails p (plain_mailOptions p n) emails w"

text \<open>\<^verbatim>\<open>this.templateRenderer?.getX?.(notification)\<close>.\<close>

definition call_accessor ::
  "renderer option \<Rightarrow> (renderer \<Rightarrow> (notification \<Rightarrow> string option) option) \<Rightarrow> notification
   \<Rightarrow> string option" where
  "call_accessor r getX n =
     (case r of
        None \<Rightarrow> None
      | Some rd \<Rightarrow> (case getX rd of None \<Rightarrow> None | Some f \<Rightarrow> f n))"

definition template_mailOptions :: "processor \<Rightarrow> notification \<Rightarrow> mail_options" where
  "template_mailOptions p n =
     \<lparr>mail_from = sender p,
      mail_subject = (case call_accessor (templateRenderer p) getSubject n of
                        None \<Rightarrow> Some (title (payload n))
                      | Some s \<Rightarrow> Some s),
      mail_html = call_accessor (templateRenderer p) getHtml n,
      mail_text = call_accessor (templateRenderer p) getText n,
      mail_replyTo = replyTo p,
      mail_to = None\<rparr>"

definition sendTemplateEmail ::
  "processor \<Rightarrow> notification \<Rightarrow> string list \<Rightarrow> world \<Rightarrow> (error + unit) \<times> world" where
  "sendTemplateEmail p n emails w = sendMails p (template_mailOptions p n) emails w"

definition postProcess ::
  "processor \<Rightarrow> notification \<Rightarrow> send_options \<Rightarrow> world \<Rightarrow> (error + unit) \<times> world" where
  "postProcess p n options w =
     (case getTransporter p w of
        (Inl e, w1) \<Rightarrow> (Inl e, w1)
      | (Inr t, w1) \<Rightarrow>
          (let w2 = w1\<lparr>transporter := Some t\<rparr> in
           case getRecipientEmails p n options w2 of
             (Inl e, w3) \<Rightarrow>
               (Inr (),
                emit (LoggerError (''Failed to resolve recipient emails: '' @ error_to_string e)) w3)
           | (Inr emails, w3) \<Rightarrow>
               if length emails = 0 then
                 (Inr (),
                  emit (LoggerInfo (''No email recipients found for notification: ''
                                    @ notification_id n @ '', skipping'')) w3)
               else if templateRenderer p = None then sendPlainEmail p n emails w3
               else sendTemplateEmail p n emails w3))"

subsection \<open>Reading the trace\<close>

text \<open>The mails handed to the transport, oldest first.\<close>

fun sends_of :: "event list \<Rightarrow> mail_options list" where
  "sends_of [] = []"
| "sends_of (TransportSendMail m # es) = m # sends_of es"
| "sends_of (e # es) = sends_of es"


subsection \<open>Concrete collaborators for the examples\<close>

definition example_auth :: auth_service where
  "example_auth =
     \<lparr>getOwnServiceCredentials = Inr ''credentials'',
      getPluginRequestToken = (\<lambda>credentials target. Inr ''token'')\<rparr>"

text \<open>
  A directory of three users: \<open>user:default/ann\<close> and \<open>user:default/bob\<close> share a mailbox,
  \<open>user:default/cy\<close> has a profile without an email.
\<close>

definition example_catalog :: catalog_client where
  "example_catalog =
     \<lparr>getEntities = (\<lambda>token.
        Inr [\<lparr>spec_profile = Some \<lparr>email = Some ''team@x''\<rparr>\<rparr>,
             \<lparr>spec_profile = Some \<lparr>email = Some ''ann@x''\<rparr>\<rparr>,
             \<lparr>spec_profile = Some \<lparr>email = Some ''team@x''\<rparr>\<rparr>]),
      getEntityByRef = (\<lambda>entityRef token.
        if entityRef = Ref ''user:default/ann''
        then Inr (Some \<lparr>spec_profile = Some \<lparr>email = Some ''ann@x''\<rparr>\<rparr>)
        else if entityRef = Ref ''user:default/cy''
        then Inr (Some \<lparr>spec_profile = Some \<lparr>email = None\<rparr>\<rparr>)
        else if entityRef = Undefined
        then Inl (TypeError ''Cannot read properties of undefined'')
        else Inr None)\<rparr>"

text \<open>A transport that rejects every mail to \<open>bad@x\<close> and accepts the others.\<close>

definition example_transporter :: transporter where
  "example_transporter =
     Transporter (\<lambda>options. if mail_to options = Some ''bad@x''
                             then Some (Error ''rejected'') else None)"

definition example_transports :: transports where
  "example_transports =
     \<lparr>createSmtpTransport = (\<lambda>c. Inr example_transporter),
      createSesTransport = (\<lambda>c. Inr example_transporter),
      createSendmailTransport = (\<lambda>c. Inr example_transporter)\<rparr>"

definition example_processor :: processor where
  "example_processor =
     \<lparr>broadcastConfig = None,
      transportConfig = [(''transport'', ConfigString ''smtp'')],
      sender = ''noreply@x'',
      replyTo = None,
      cacheTtl = 3600000,
      concurrencyLimit = 2,
      throttleInterval = 100,
      cache = True,
      templateRenderer = None,
      auth = example_auth,
      catalog = example_catalog,
      transports = example_transports\<rparr>"

text \<open>A renderer that provides \<^verbatim>\<open>getHtml\<close> only.\<close>

definition example_renderer :: renderer where
  "example_renderer =
     \<lparr>getSubject = None,
      getHtml = Some (\<lambda>n. Some (''<h1>'' @ title (payload n) @ ''</h1>'')),
      getText = None\<rparr>"

definition example_notification :: notification where
  "example_notification =
     \<lparr>notification_id = ''n1'',
      user = Ref ''user:default/ann'',
      payload = \<lparr>title = ''T'', description = Some ''D'', link = Some ''L''\<rparr>\<rparr>"

definition empty_world :: world where
  "empty_world = \<lparr>now = 0, cache_store = [], transporter = None, trace = []\<rparr>"

section \<open>Properties\<close>

subsection \<open>What each method leaves in the trace\<close>

lemma sends_of_append: "sends_of (xs @ ys) = sends_of xs @ sends_of ys"
  by (induction xs rule: sends_of.induct) simp_all

lemma sends_of_emit:
  "sends_of (trace (emit e w)) = sends_of (trace w) @ sends_of [e]"
  by (simp add: emit_def sends_of_append)

lemma emit_fields [simp]:
  "now (emit e w) = now w" "cache_store (emit e w) = cache_store w"
  "transporter (emit e w) = transporter w" "trace (emit e w) = trace w @ [e]"
  by (simp_all add: emit_def)

lemma cache_get_sends:
  "cache_get p key w = (r, w1) \<Longrightarrow> sends_of (trace w1) = sends_of (trace w)"
  by (auto simp: cache_get_def sends_of_append split: if_splits option.splits prod.splits)

lemma cache_set_sends:
  "sends_of (trace (cache_set p key v ttl w)) = sends_of (trace w)"
  by (simp add: cache_set_def sends_of_append)

lemma getCatalogToken_sends:
  "getCatalogToken p w = (r, w1) \<Longrightarrow> sends_of (trace w1) = sends_of (trace w)"
  by (auto simp: getCatalogToken_def Let_def sends_of_append split: sum.splits)

lemma getBroadcastEmails_sends:
  "getBroadcastEmails p w = (r, w1) \<Longrightarrow> sends_of (trace w1) = sends_of (trace w)"
  unfolding getBroadcastEmails_def
  by (auto simp: Let_def sends_of_append cache_set_sends
      split: option.splits sum.splits if_splits prod.splits
      dest!: cache_get_sends getCatalogToken_sends)

lemma getUserEmail_sends:
  "getUserEmail p r w = (res, w1) \<Longrightarrow> sends_of (trace w1) = sends_of (trace w)"
  unfolding getUserEmail_def
  by (auto simp: Let_def sends_of_append cache_set_sends
      split: option.splits sum.splits if_splits prod.splits
      dest!: cache_get_sends getCatalogToken_sends)

lemma getRecipientEmails_sends:
  "getRecipientEmails p n options w = (res, w1) \<Longrightarrow> sends_of (trace w1) = sends_of (trace w)"
  unfolding getRecipientEmails_def
  by (auto split: if_splits dest: getBroadcastEmails_sends getUserEmail_sends)

lemma getTransporter_trace:
  "getTransporter p w = (res, w1) \<Longrightarrow> trace w1 = trace w"
  unfolding getTransporter_def
  by (auto split: option.splits sum.splits if_splits)

lemmas example_defs =
  example_processor_def example_auth_def example_catalog_def example_transports_def
  example_transporter_def example_notification_def example_renderer_def empty_world_def

lemmas resolver_defs =
  getUserEmail_def getBroadcastEmails_def getCatalogToken_def cache_get_def cache_set_def
  emit_def getString_def getOptionalStringArray_def entity_email_def truthy_def Let_def

subsection \<open>Rendering\<close>

text \<open>
  Which strategy \<^verbatim>\<open>postProcess\<close> runs once resolution has returned recipients: the plain
  one exactly when no template renderer was supplied.
\<close>

lemma postProcess_strategy:
  assumes "fst (getTransporter p w) = Inr t"
    and "fst (getRecipientEmails p n options
               ((snd (getTransporter p w))\<lparr>transporter := Some t\<rparr>)) = Inr emails"
    and "emails \<noteq> []"
  shows "postProcess p n options w
           = sendMails p
               (if templateRenderer p = None then plain_mailOptions p n
                else template_mailOptions p n)
               emails
               (snd (getRecipientEmails p n options
                       ((snd (getTransporter p w))\<lparr>transporter := Some t\<rparr>)))"
proof -
  obtain w1 where g: "getTransporter p w = (Inr t, w1)"
    using assms(1) by (cases "getTransporter p w") simp
  obtain w3 where r: "getRecipientEmails p n options (w1\<lparr>transporter := Some t\<rparr>) = (Inr emails, w3)"
    using assms(2) g by (cases "getRecipientEmails p n options (w1\<lparr>transporter := Some t\<rparr>)") simp
  show ?thesis
    using g r assms(3)
    by (simp add: postProcess_def Let_def sendPlainEmail_def sendTemplateEmail_def)
qed

text \<open>
  C1 (as amended). Plain strategy: the subject is the payload title; the text body is the
  description and the link, each taken only when it is a non-empty string, joined by a
  blank line; the HTML body is the same parts joined by \<^verbatim>\<open><br/>\<close> inside one paragraph.
  With neither part the text body is the empty string and the HTML body is the empty
  paragraph \<^verbatim>\<open><p></p>\<close>.
\<close>

theorem plain_rendering:
  "mail_subject (plain_mailOptions p n) = Some (title (payload n)) \<and>
   (\<forall>d l. description (payload n) = Some d \<and> d \<noteq> [] \<and> link (payload n) = Some l \<and> l \<noteq> [] \<longrightarrow>
      mail_text (plain_mailOptions p n) = Some (d @ [CHR 0x0A, CHR 0x0A] @ l) \<and>
      mail_html (plain_mailOptions p n) = Some (''<p>'' @ d @ ''<br/>'' @ l @ ''</p>'')) \<and>
   (\<forall>d. description (payload n) = Some d \<and> d \<noteq> [] \<and> \<not> truthy (link (payload n)) \<longrightarrow>
      mail_text (plain_mailOptions p n) = Some d \<and>
      mail_html (plain_mailOptions p n) = Some (''<p>'' @ d @ ''</p>'')) \<and>
   (\<forall>l. \<not> truthy (description (payload n)) \<and> link (payload n) = Some l \<and> l \<noteq> [] \<longrightarrow>
      mail_text (plain_mailOptions p n) = Some l \<and>
      mail_html (plain_mailOptions p n) = Some (''<p>'' @ l @ ''</p>'')) \<and>
   (\<not> truthy (description (payload n)) \<and> \<not> truthy (link (payload n)) \<longrightarrow>
      mail_text (plain_mailOptions p n) = Some [] \<and>
      mail_html (plain_mailOptions p n) = Some ''<p></p>'')"
  by (simp add: plain_mailOptions_def plain_contentParts_def truthy_def)

text \<open>
  The payloads of the spec: title, description and link; an empty link; a link alone; a
  title alone.
\<close>

theorem plain_rendering_witness:
  "mail_subject (plain_mailOptions example_processor example_notification) = Some ''T'' \<and>
   mail_text (plain_mailOptions example_processor example_notification)
     = Some (''D'' @ [CHR 0x0A, CHR 0x0A] @ ''L'') \<and>
   mail_html (plain_mailOptions example_processor example_notification) = Some ''<p>D<br/>L</p>'' \<and>
   mail_text (plain_mailOptions example_processor
       (example_notification\<lparr>payload := \<lparr>title = ''T'', description = Some ''D'', link = Some []\<rparr>\<rparr>))
     = Some ''D'' \<and>
   mail_html (plain_mailOptions example_processor
       (example_notification\<lparr>payload := \<lparr>title = ''T'', description = None, link = Some ''L''\<rparr>\<rparr>))
     = Some ''<p>L</p>'' \<and>
   mail_text (plain_mailOptions example_processor
       (example_notification\<lparr>payload := \<lparr>title = ''T'', description = None, link = None\<rparr>\<rparr>))
     = Some [] \<and>
   mail_html (plain_mailOptions example_processor
       (example_notification\<lparr>payload := \<lparr>title = ''T'', description = None, link = None\<rparr>\<rparr>))
     = Some ''<p></p>''"
  using plain_rendering [of example_processor example_notification]
    plain_rendering [of example_processor
      "example_notification\<lparr>payload := \<lparr>title = ''T'', description = Some ''D'', link = Some []\<rparr>\<rparr>"]
    plain_rendering [of example_processor
      "example_notification\<lparr>payload := \<lparr>title = ''T'', description = None, link = Some ''L''\<rparr>\<rparr>"]
    plain_rendering [of example_processor
      "example_notification\<lparr>payload := \<lparr>title = ''T'', description = None, link = None\<rparr>\<rparr>"]
  by (simp add: example_notification_def truthy_def)

text \<open>
  C1 as stated fails on the payload with only a title: its HTML body is \<^verbatim>\<open><p></p>\<close>, not
  the empty string.
\<close>

theorem plain_title_only_html_counterexample:
  "\<not> (mail_subject (plain_mailOptions example_processor
          \<lparr>notification_id = ''n1'', user = Null,
           payload = \<lparr>title = ''T'', description = None, link = None\<rparr>\<rparr>) = Some ''T'' \<and>
       mail_text (plain_mailOptions example_processor
          \<lparr>notification_id = ''n1'', user = Null,
           payload = \<lparr>title = ''T'', description = None, link = None\<rparr>\<rparr>) = Some [] \<and>
       mail_html (plain_mailOptions example_processor
          \<lparr>notification_id = ''n1'', user = Null,
           payload = \<lparr>title = ''T'', description = None, link = None\<rparr>\<rparr>) = Some [])"
  by (simp add: plain_mailOptions_def plain_contentParts_def truthy_def)

text \<open>
  C3 (as amended). Template strategy: the HTML body and the text body are what the
  renderer's accessor answers for the notification, and absent when the renderer has no
  such accessor; the subject is what \<^verbatim>\<open>getSubject\<close> answers, and the payload title when the
  renderer has no \<^verbatim>\<open>getSubject\<close> or it answers nothing.
\<close>

theorem template_rendering:
  "templateRenderer p = Some r \<Longrightarrow>
   (getSubject r = None \<longrightarrow>
      mail_subject (template_mailOptions p n) = Some (title (payload n))) \<and>
   (\<forall>f. getSubject r = Some f \<longrightarrow>
      mail_subject (template_mailOptions p n)
        = (case f n of None \<Rightarrow> Some (title (payload n)) | Some s \<Rightarrow> Some s)) \<and>
   (getHtml r = None \<longrightarrow> mail_html (template_mailOptions p n) = None) \<and>
   (\<forall>f. getHtml r = Some f \<longrightarrow> mail_html (template_mailOptions p n) = f n) \<and>
   (getText r = None \<longrightarrow> mail_text (template_mailOptions p n) = None) \<and>
   (\<forall>f. getText r = Some f \<longrightarrow> mail_text (template_mailOptions p n) = f n)"
  by (simp add: template_mailOptions_def call_accessor_def)

theorem template_rendering_witness:
  "mail_subject (template_mailOptions
      (example_processor\<lparr>templateRenderer := Some example_renderer\<rparr>) example_notification)
     = Some ''T'' \<and>
   mail_html (template_mailOptions
      (example_processor\<lparr>templateRenderer := Some example_renderer\<rparr>) example_notification)
     = Some ''<h1>T</h1>'' \<and>
   mail_text (template_mailOptions
      (example_processor\<lparr>templateRenderer := Some example_renderer\<rparr>) example_notification)
     = None \<and>
   mail_subject (template_mailOptions
      (example_processor\<lparr>templateRenderer := Some (example_renderer\<lparr>getSubject := Some (\<lambda>n. Some (''Re: '' @ title (payload n)))\<rparr>)\<rparr>)
      example_notification)
     = Some ''Re: T''"
  using template_rendering [of "example_processor\<lparr>templateRenderer := Some example_renderer\<rparr>"
      example_renderer example_notification]
    template_rendering [of "example_processor\<lparr>templateRenderer := Some (example_renderer\<lparr>getSubject := Some (\<lambda>n. Some (''Re: '' @ title (payload n)))\<rparr>)\<rparr>"
      "example_renderer\<lparr>getSubject := Some (\<lambda>n. Some (''Re: '' @ title (payload n)))\<rparr>" example_notification]
  by (simp add: example_renderer_def example_notification_def)

text \<open>
  C3 as stated fails for a renderer without \<^verbatim>\<open>getSubject\<close>: the subject is the payload
  title, neither absent nor empty.
\<close>

theorem template_subject_fallback_counterexample:
  "\<not> (mail_subject (template_mailOptions
          (example_processor\<lparr>templateRenderer := Some example_renderer\<rparr>) example_notification) = None
      \<or> mail_subject (template_mailOptions
          (example_processor\<lparr>templateRenderer := Some example_renderer\<rparr>) example_notification) = Some [])"
  by (simp add: template_mailOptions_def call_accessor_def example_renderer_def
      example_notification_def)

subsection \<open>Recipient resolution\<close>

text \<open>
  C2 (as amended). Resolution takes the broadcast path if and only if the recipients type
  is \<^verbatim>\<open>broadcast\<close> or the notification's user is \<^verbatim>\<open>null\<close>; otherwise it takes the targeted
  path with the notification's user, also when that user is \<^verbatim>\<open>undefined\<close>.
\<close>

theorem recipient_path:
  "(recipients_type options = ''broadcast'' \<or> user n = Null \<longrightarrow>
      getRecipientEmails p n options w = getBroadcastEmails p w) \<and>
   (recipients_type options \<noteq> ''broadcast'' \<and> user n \<noteq> Null \<longrightarrow>
      getRecipientEmails p n options w = getUserEmail p (user n) w)"
  by (simp add: getRecipientEmails_def)

theorem recipient_path_witness:
  "fst (getRecipientEmails example_processor example_notification
          \<lparr>recipients_type = ''broadcast''\<rparr> empty_world) = Inr [] \<and>
   fst (getRecipientEmails example_processor (example_notification\<lparr>user := Null\<rparr>)
          \<lparr>recipients_type = ''entity''\<rparr> empty_world) = Inr [] \<and>
   fst (getRecipientEmails example_processor example_notification
          \<lparr>recipients_type = ''entity''\<rparr> empty_world) = Inr [''ann@x'']"
  using recipient_path [of "\<lparr>recipients_type = ''broadcast''\<rparr>" example_notification
      example_processor empty_world]
    recipient_path [of "\<lparr>recipients_type = ''entity''\<rparr>" "example_notification\<lparr>user := Null\<rparr>"
      example_processor empty_world]
    recipient_path [of "\<lparr>recipients_type = ''entity''\<rparr>" example_notification
      example_processor empty_world]
  by (simp add: example_defs resolver_defs)

text \<open>
  C2 as stated fails for a notification whose user is \<^verbatim>\<open>undefined\<close> sent with a
  non-broadcast recipients type: the comparison is \<^verbatim>\<open>=== null\<close>, so resolution goes to the
  directory with the undefined reference instead of taking the broadcast path.
\<close>

theorem undefined_user_targeted_counterexample:
  "getRecipientEmails example_processor (example_notification\<lparr>user := Undefined\<rparr>)
      \<lparr>recipients_type = ''entity''\<rparr> empty_world
     = getUserEmail example_processor Undefined empty_world \<and>
   getRecipientEmails example_processor (example_notification\<lparr>user := Undefined\<rparr>)
      \<lparr>recipients_type = ''entity''\<rparr> empty_world
     \<noteq> getBroadcastEmails example_processor empty_world"
  by (simp add: getRecipientEmails_def example_defs resolver_defs)

text \<open>
  C4. With a cache supplied, a targeted resolution that misses the cache and finds the
  entity absent, or present without a profile email, returns the empty list and writes it
  to the cache under the user's key with the configured time-to-live. Any later resolution
  of the same reference that starts before that time-to-live has passed, on the cache as
  the first one left it, returns the empty list after a single cache read: no credential
  is requested and the directory is not queried.
\<close>

theorem targeted_negative_caching:
  assumes "cache p"
    and "fst (cache_get p (''user-emails:'' @ ref_to_string r) w) = None"
    and "getOwnServiceCredentials (auth p) = Inr c"
    and "getPluginRequestToken (auth p) c ''catalog'' = Inr token"
    and "getEntityByRef (catalog p) r token = Inr ent"
    and "ent = None \<or> (\<exists>e. ent = Some e \<and> \<not> truthy (entity_email e))"
  shows "fst (getUserEmail p r w) = Inr [] \<and>
         trace (snd (getUserEmail p r w))
           = trace w @ [CacheGet (''user-emails:'' @ ref_to_string r),
                        AuthGetOwnServiceCredentials, AuthGetPluginRequestToken,
                        CatalogGetEntityByRef r,
                        CacheSet (''user-emails:'' @ ref_to_string r) [] (cacheTtl p)] \<and>
         (\<forall>w2. cache_store w2 = cache_store (snd (getUserEmail p r w)) \<and>
               now w2 < now w + cacheTtl p \<longrightarrow>
               getUserEmail p r w2
                 = (Inr [], emit (CacheGet (''user-emails:'' @ ref_to_string r)) w2))"
  using assms
  by (auto simp: getUserEmail_def getCatalogToken_def cache_get_def cache_set_def Let_def
      split: option.splits prod.splits if_splits)

theorem targeted_negative_caching_witness:
  "fst (getUserEmail example_processor (Ref ''user:default/cy'') empty_world) = Inr [] \<and>
   getUserEmail example_processor (Ref ''user:default/cy'')
      ((snd (getUserEmail example_processor (Ref ''user:default/cy'') empty_world))\<lparr>now := 3599999\<rparr>)
     = (Inr [], emit (CacheGet ''user-emails:user:default/cy'')
          ((snd (getUserEmail example_processor (Ref ''user:default/cy'') empty_world))
             \<lparr>now := 3599999\<rparr>)) \<and>
   fst (getUserEmail example_processor (Ref ''user:default/zed'') empty_world) = Inr []"
  using targeted_negative_caching [of example_processor "Ref ''user:default/cy''" empty_world
      "''credentials''" "''token''" "Some \<lparr>spec_profile = Some \<lparr>email = None\<rparr>\<rparr>"]
    targeted_negative_caching [of example_processor "Ref ''user:default/zed''" empty_world
      "''credentials''" "''token''" None]
  by (simp add: example_defs cache_get_def entity_email_def truthy_def)

subsection \<open>Dispatch\<close>

lemma sendMail_ok:
  assumes "transporter w = Some t"
  shows "sendMail p options w =
           (Inr (),
            (case transporter_sendMail t options of
               None \<Rightarrow> emit (TransportSendMail options) w
             | Some e \<Rightarrow>
                 emit (LoggerError (''Failed to send email to '' @ opt_to_string (mail_to options)
                                    @ '': '' @ error_to_string e))
                   (emit (TransportSendMail options) w)))"
  using assms by (simp add: sendMail_def split: option.splits)

lemma sendMail_never_throws: "fst (sendMail p options w) = Inr ()"
  by (simp add: sendMail_def split: option.splits prod.splits)

lemma throttled_map_results:
  "throttled_map p th options emails w = (rs, w1) \<Longrightarrow> promise_all rs = Inr ()"
proof (induction emails arbitrary: th w rs w1)
  case Nil
  then show ?case by simp
next
  case (Cons a emails)
  obtain start th1 where ad: "throttle_admit th = (start, th1)"
    by (cases "throttle_admit th")
  let ?w = "emit (ThrottleAdmit start) (w\<lparr>now := max (now w) start\<rparr>)"
  obtain r wa where s: "sendMail p (options\<lparr>mail_to := Some a\<rparr>) ?w = (r, wa)"
    by (cases "sendMail p (options\<lparr>mail_to := Some a\<rparr>) ?w")
  obtain rs' wb where t: "throttled_map p th1 options emails wa = (rs', wb)"
    by (cases "throttled_map p th1 options emails wa")
  have "r = Inr ()"
    using sendMail_never_throws [of p "options\<lparr>mail_to := Some a\<rparr>" ?w] s by simp
  moreover have "rs = r # rs'" using Cons.prems ad s t by simp
  moreover have "promise_all rs' = Inr ()" using Cons.IH [OF t] .
  ultimately show ?case by simp
qed

lemma throttled_map_trace:
  assumes "transporter w = Some t"
    and "throttled_map p th options emails w = (rs, w1)"
  shows "sends_of (trace w1)
           = sends_of (trace w) @ map (\<lambda>e. options\<lparr>mail_to := Some e\<rparr>) emails \<and>
         transporter w1 = Some t \<and> cache_store w1 = cache_store w \<and>
         set (trace w) \<subseteq> set (trace w1) \<and>
         (\<forall>a \<in> set emails. \<forall>e.
            transporter_sendMail t (options\<lparr>mail_to := Some a\<rparr>) = Some e \<longrightarrow>
            LoggerError (''Failed to send email to '' @ a @ '': '' @ error_to_string e)
              \<in> set (trace w1))"
  using assms
proof (induction emails arbitrary: th w rs w1)
  case Nil
  then show ?case by simp
next
  case (Cons a emails)
  let ?o = "options\<lparr>mail_to := Some a\<rparr>"
  obtain start th1 where ad: "throttle_admit th = (start, th1)"
    by (cases "throttle_admit th")
  let ?w = "emit (ThrottleAdmit start) (w\<lparr>now := max (now w) start\<rparr>)"
  have tw: "transporter ?w = Some t"
    using Cons.prems(1) by simp
  obtain r wa where s: "sendMail p ?o ?w = (r, wa)"
    by (cases "sendMail p ?o ?w")
  obtain rs' wb where t: "throttled_map p th1 options emails wa = (rs', wb)"
    by (cases "throttled_map p th1 options emails wa")
  have wa: "wa = (case transporter_sendMail t ?o of
               None \<Rightarrow> emit (TransportSendMail ?o) ?w
             | Some e \<Rightarrow>
                 emit (LoggerError (''Failed to send email to '' @ a @ '': '' @ error_to_string e))
                   (emit (TransportSendMail ?o) ?w))"
    using sendMail_ok [OF tw, of p ?o] s
    by (simp add: opt_to_string_def split: option.splits)
  have tr: "transporter wa = Some t" "cache_store wa = cache_store w"
    "set (trace w) \<subseteq> set (trace wa)"
    "sends_of (trace wa) = sends_of (trace w) @ [?o]"
    using wa Cons.prems(1) by (auto simp: sends_of_append split: option.splits)
  have logged: "\<forall>e. transporter_sendMail t ?o = Some e \<longrightarrow>
      LoggerError (''Failed to send email to '' @ a @ '': '' @ error_to_string e) \<in> set (trace wa)"
    using wa by (auto split: option.splits)
  have w1: "w1 = wb" using Cons.prems(2) ad s t by simp
  note ih = Cons.IH [OF tr(1) t]
  show ?case
    using ih tr logged w1 by auto
qed

text \<open>
  C5. Dispatch never throws, whatever the template and the recipients. With the transport
  in place, the mails handed to it during the call are the template with each recipient
  in turn as its target, one per entry of the list and none dropped after a failure, all
  of them handed over when the call returns; and every recipient whose send the transport
  rejects has an error logged that names the address. (The calls are run one after the
  other in the order the throttle starts them.)
\<close>

theorem dispatch_isolated:
  "fst (sendMails p options emails w) = Inr () \<and>
   (\<forall>t. transporter w = Some t \<longrightarrow>
      sends_of (trace (snd (sendMails p options emails w)))
        = sends_of (trace w) @ map (\<lambda>a. options\<lparr>mail_to := Some a\<rparr>) emails \<and>
      (\<forall>a \<in> set emails. \<forall>e.
         transporter_sendMail t (options\<lparr>mail_to := Some a\<rparr>) = Some e \<longrightarrow>
         LoggerError (''Failed to send email to '' @ a @ '': '' @ error_to_string e)
           \<in> set (trace (snd (sendMails p options emails w)))))"
proof -
  let ?th = "pThrottle (concurrencyLimit p) (throttleInterval p) (now w)"
  obtain rs w1 where t: "throttled_map p ?th options emails w = (rs, w1)"
    by (cases "throttled_map p ?th options emails w")
  have s: "sendMails p options emails w = (promise_all rs, w1)"
    using t by (simp add: sendMails_def Let_def)
  have "fst (sendMails p options emails w) = Inr ()"
    using s throttled_map_results [OF t] by simp
  moreover have "\<forall>t. transporter w = Some t \<longrightarrow>
      sends_of (trace (snd (sendMails p options emails w)))
        = sends_of (trace w) @ map (\<lambda>a. options\<lparr>mail_to := Some a\<rparr>) emails \<and>
      (\<forall>a \<in> set emails. \<forall>e.
         transporter_sendMail t (options\<lparr>mail_to := Some a\<rparr>) = Some e \<longrightarrow>
         LoggerError (''Failed to send email to '' @ a @ '': '' @ error_to_string e)
           \<in> set (trace (snd (sendMails p options emails w))))"
    using throttled_map_trace [OF _ t] s by simp
  ultimately show ?thesis by blast
qed

text \<open>
  Three recipients, the second of which the transport rejects.
\<close>

theorem dispatch_isolated_witness:
  "fst (sendMails example_processor (plain_mailOptions example_processor example_notification)
          [''ann@x'', ''bad@x'', ''cy@x'']
          (empty_world\<lparr>transporter := Some example_transporter\<rparr>)) = Inr () \<and>
   map mail_to (sends_of (trace (snd
       (sendMails example_processor (plain_mailOptions example_processor example_notification)
          [''ann@x'', ''bad@x'', ''cy@x'']
          (empty_world\<lparr>transporter := Some example_transporter\<rparr>)))))
     = [Some ''ann@x'', Some ''bad@x'', Some ''cy@x''] \<and>
   LoggerError ''Failed to send email to bad@x: Error: rejected''
     \<in> set (trace (snd
       (sendMails example_processor (plain_mailOptions example_processor example_notification)
          [''ann@x'', ''bad@x'', ''cy@x'']
          (empty_world\<lparr>transporter := Some example_transporter\<rparr>))))"
  using dispatch_isolated [of example_processor
      "plain_mailOptions example_processor example_notification"
      "[''ann@x'', ''bad@x'', ''cy@x'']"
      "empty_world\<lparr>transporter := Some example_transporter\<rparr>"]
  by (simp add: example_transporter_def empty_world_def)








subsection \<open>The orchestrator\<close>

text \<open>
  C7. When the transport is ready and recipient resolution returns the empty list,
  \<^verbatim>\<open>postProcess\<close> logs the informational message naming the notification, hands no mail
  to the transport and returns normally.
\<close>

theorem empty_recipients_skipped:
  assumes "fst (getTransporter p w) = Inr t"
    and "fst (getRecipientEmails p n options
               ((snd (getTransporter p w))\<lparr>transporter := Some t\<rparr>)) = Inr []"
  shows "postProcess p n options w
           = (Inr (),
              emit (LoggerInfo (''No email recipients found for notification: ''
                                @ notification_id n @ '', skipping''))
                (snd (getRecipientEmails p n options
                        ((snd (getTransporter p w))\<lparr>transporter := Some t\<rparr>)))) \<and>
         sends_of (trace (snd (postProcess p n options w))) = sends_of (trace w)"
proof -
  obtain w1 where g: "getTransporter p w = (Inr t, w1)"
    using assms(1) by (cases "getTransporter p w") simp
  obtain w3 where r: "getRecipientEmails p n options (w1\<lparr>transporter := Some t\<rparr>) = (Inr [], w3)"
    using assms(2) g by (cases "getRecipientEmails p n options (w1\<lparr>transporter := Some t\<rparr>)") simp
  have "sends_of (trace w3) = sends_of (trace w)"
    using getRecipientEmails_sends [OF r] getTransporter_trace [OF g] by simp
  then show ?thesis
    using g r by (simp add: postProcess_def Let_def sends_of_append)
qed

text \<open>
  A user whose profile has no email.
\<close>

theorem empty_recipients_skipped_witness:
  "fst (postProcess example_processor (example_notification\<lparr>user := Ref ''user:default/cy''\<rparr>)
          \<lparr>recipients_type = ''entity''\<rparr> empty_world) = Inr () \<and>
   last (trace (snd (postProcess example_processor
          (example_notification\<lparr>user := Ref ''user:default/cy''\<rparr>)
          \<lparr>recipients_type = ''entity''\<rparr> empty_world)))
     = LoggerInfo ''No email recipients found for notification: n1, skipping'' \<and>
   sends_of (trace (snd (postProcess example_processor
          (example_notification\<lparr>user := Ref ''user:default/cy''\<rparr>)
          \<lparr>recipients_type = ''entity''\<rparr> empty_world))) = []"
  using empty_recipients_skipped [of example_processor empty_world example_transporter
      "example_notification\<lparr>user := Ref ''user:default/cy''\<rparr>" "\<lparr>recipients_type = ''entity''\<rparr>"]
  by (simp add: getTransporter_def getRecipientEmails_def example_defs resolver_defs)

text \<open>
  C8. When the transport is ready and recipient resolution throws, \<^verbatim>\<open>postProcess\<close> logs
  the error, hands no mail to the transport and returns normally: the error does not
  leave \<^verbatim>\<open>postProcess\<close>.
\<close>

theorem resolution_error_contained:
  assumes "fst (getTransporter p w) = Inr t"
    and "fst (getRecipientEmails p n options
               ((snd (getTransporter p w))\<lparr>transporter := Some t\<rparr>)) = Inl e"
  shows "postProcess p n options w
           = (Inr (),
              emit (LoggerError (''Failed to resolve recipient emails: '' @ error_to_string e))
                (snd (getRecipientEmails p n options
                        ((snd (getTransporter p w))\<lparr>transporter := Some t\<rparr>)))) \<and>
         sends_of (trace (snd (postProcess p n options w))) = sends_of (trace w)"
proof -
  obtain w1 where g: "getTransporter p w = (Inr t, w1)"
    using assms(1) by (cases "getTransporter p w") simp
  obtain w3 where r: "getRecipientEmails p n options (w1\<lparr>transporter := Some t\<rparr>) = (Inl e, w3)"
    using assms(2) g by (cases "getRecipientEmails p n options (w1\<lparr>transporter := Some t\<rparr>)") simp
  have "sends_of (trace w3) = sends_of (trace w)"
    using getRecipientEmails_sends [OF r] getTransporter_trace [OF g] by simp
  then show ?thesis
    using g r by (simp add: postProcess_def Let_def sends_of_append)
qed

text \<open>
  A credential failure, and a directory failure.
\<close>

theorem resolution_error_contained_witness:
  "fst (postProcess
          (example_processor\<lparr>auth := example_auth\<lparr>getOwnServiceCredentials := Inl (Error ''no credentials'')\<rparr>\<rparr>)
          example_notification \<lparr>recipients_type = ''entity''\<rparr> empty_world) = Inr () \<and>
   last (trace (snd (postProcess
          (example_processor\<lparr>auth := example_auth\<lparr>getOwnServiceCredentials := Inl (Error ''no credentials'')\<rparr>\<rparr>)
          example_notification \<lparr>recipients_type = ''entity''\<rparr> empty_world)))
     = LoggerError ''Failed to resolve recipient emails: Error: no credentials'' \<and>
   sends_of (trace (snd (postProcess
          (example_processor\<lparr>auth := example_auth\<lparr>getOwnServiceCredentials := Inl (Error ''no credentials'')\<rparr>\<rparr>)
          example_notification \<lparr>recipients_type = ''entity''\<rparr> empty_world))) = [] \<and>
   fst (postProcess
          (example_processor\<lparr>catalog := example_catalog\<lparr>getEntityByRef := (\<lambda>r t. Inl (Error ''catalog down''))\<rparr>\<rparr>)
          example_notification \<lparr>recipients_type = ''entity''\<rparr> empty_world) = Inr () \<and>
   last (trace (snd (postProcess
          (example_processor\<lparr>catalog := example_catalog\<lparr>getEntityByRef := (\<lambda>r t. Inl (Error ''catalog down''))\<rparr>\<rparr>)
          example_notification \<lparr>recipients_type = ''entity''\<rparr> empty_world)))
     = LoggerError ''Failed to resolve recipient emails: Error: catalog down''"
  using resolution_error_contained [of
      "example_processor\<lparr>auth := example_auth\<lparr>getOwnServiceCredentials := Inl (Error ''no credentials'')\<rparr>\<rparr>"
      empty_world example_transporter example_notification "\<lparr>recipients_type = ''entity''\<rparr>"
      "Error ''no credentials''"]
    resolution_error_contained [of
      "example_processor\<lparr>catalog := example_catalog\<lparr>getEntityByRef := (\<lambda>r t. Inl (Error ''catalog down''))\<rparr>\<rparr>"
      empty_world example_transporter example_notification "\<lparr>recipients_type = ''entity''\<rparr>"
      "Error ''catalog down''"]
  by (simp add: getTransporter_def getRecipientEmails_def example_defs resolver_defs)

subsection \<open>Broadcast receivers and the optional cache\<close>

text \<open>
  C9 (as amended). A broadcast resolution with no \<^verbatim>\<open>broadcastConfig\<close> section behaves as
  receiver mode \<^verbatim>\<open>none\<close> does: it returns the empty list, touches neither cache nor
  directory and raises nothing. With the section present and its \<^verbatim>\<open>receiver\<close> key unset,
  the required read of the key raises, and the resolution raises that error, again
  without touching cache or directory.
\<close>

theorem broadcast_receiver_unset:
  "(broadcastConfig p = None \<longrightarrow> getBroadcastEmails p w = (Inr [], w)) \<and>
   (\<forall>bc. broadcastConfig p = Some bc \<and> getString bc ''receiver'' = Inr ''none'' \<longrightarrow>
      getBroadcastEmails p w = (Inr [], w)) \<and>
   (\<forall>bc. broadcastConfig p = Some bc \<and> map_of bc ''receiver'' = None \<longrightarrow>
      (\<exists>e. getString bc ''receiver'' = Inl e \<and> getBroadcastEmails p w = (Inl e, w)))"
  by (simp add: getBroadcastEmails_def getString_def)

text \<open>
  No section; mode \<^verbatim>\<open>none\<close>; a section that only lists \<^verbatim>\<open>receiverEmails\<close>.
\<close>

theorem broadcast_receiver_unset_witness:
  "getBroadcastEmails example_processor empty_world = (Inr [], empty_world) \<and>
   getBroadcastEmails (example_processor\<lparr>broadcastConfig := Some [(''receiver'', ConfigString ''none'')]\<rparr>)
      empty_world = (Inr [], empty_world) \<and>
   isl (fst (getBroadcastEmails
      (example_processor\<lparr>broadcastConfig := Some [(''receiverEmails'', ConfigStringArray [''a@x''])]\<rparr>)
      empty_world)) \<and>
   snd (getBroadcastEmails
      (example_processor\<lparr>broadcastConfig := Some [(''receiverEmails'', ConfigStringArray [''a@x''])]\<rparr>)
      empty_world) = empty_world"
  using broadcast_receiver_unset [of example_processor empty_world]
    broadcast_receiver_unset [of
      "example_processor\<lparr>broadcastConfig := Some [(''receiver'', ConfigString ''none'')]\<rparr>" empty_world]
    broadcast_receiver_unset [of
      "example_processor\<lparr>broadcastConfig := Some [(''receiverEmails'', ConfigStringArray [''a@x''])]\<rparr>"
      empty_world]
  by (auto simp: example_processor_def getString_def)

text \<open>
  C9 as stated fails for a \<^verbatim>\<open>broadcastConfig\<close> section without a \<^verbatim>\<open>receiver\<close> key: the
  resolution raises instead of returning the empty list.
\<close>

theorem receiver_key_unset_counterexample:
  "fst (getBroadcastEmails
      (example_processor\<lparr>broadcastConfig := Some [(''receiverEmails'', ConfigStringArray [''a@x''])]\<rparr>)
      empty_world) \<noteq> Inr []"
  by (simp add: getBroadcastEmails_def getString_def example_processor_def)

lemma new_Set_foldl_set:
  "set (foldl (\<lambda>acc x. if x \<in> set acc then acc else acc @ [x]) acc xs) = set acc \<union> set xs"
  by (induction xs arbitrary: acc) auto

lemma new_Set_foldl_distinct:
  "distinct acc \<Longrightarrow> distinct (foldl (\<lambda>acc x. if x \<in> set acc then acc else acc @ [x]) acc xs)"
  by (induction xs arbitrary: acc) auto

lemma set_new_Set: "set (new_Set xs) = set xs"
  by (simp add: new_Set_def new_Set_foldl_set)

lemma distinct_new_Set: "distinct (new_Set xs)"
  by (simp add: new_Set_def new_Set_foldl_distinct)

lemma set_compact: "set (compact xs) = {a. a \<noteq> [] \<and> Some a \<in> set xs}"
  by (induction xs rule: compact.induct) auto

lemma distinct_compact: "distinct xs \<Longrightarrow> distinct (compact xs)"
  by (induction xs rule: compact.induct) (auto simp: set_compact)

lemma Some_in_image_email:
  "(Some a \<in> entity_email ` set items) = (\<exists>e \<in> set items. entity_email e = Some a)"
  by force

text \<open>
  C10. Without a cache, and with the credential calls succeeding: every targeted
  resolution and every broadcast resolution in mode \<^verbatim>\<open>users\<close> whose directory query
  succeeds asks for a token and queries the directory, whatever the world holds, and
  leaves the world as it was but for these three calls in the trace (no cache read, no
  cache write). The result is the one a processor with a cache gives on an empty cache,
  and it is the directory's answer: the non-empty profile emails found, without
  duplicates.
\<close>

theorem no_cache_resolution:
  assumes "\<not> cache p"
    and "getOwnServiceCredentials (auth p) = Inr c"
    and "getPluginRequestToken (auth p) c ''catalog'' = Inr token"
  shows "(\<forall>ent. getEntityByRef (catalog p) r token = Inr ent \<longrightarrow>
            snd (getUserEmail p r w)
              = w\<lparr>trace := trace w @ [AuthGetOwnServiceCredentials, AuthGetPluginRequestToken,
                                      CatalogGetEntityByRef r]\<rparr> \<and>
            fst (getUserEmail p r w)
              = fst (getUserEmail (p\<lparr>cache := True\<rparr>) r (w\<lparr>cache_store := []\<rparr>)) \<and>
            (\<exists>ret. fst (getUserEmail p r w) = Inr ret \<and> distinct ret \<and>
                   set ret = {a. a \<noteq> [] \<and> (\<exists>e. ent = Some e \<and> entity_email e = Some a)})) \<and>
         (\<forall>bc items. broadcastConfig p = Some bc \<and> getString bc ''receiver'' = Inr ''users'' \<and>
                     getEntities (catalog p) token = Inr items \<longrightarrow>
            snd (getBroadcastEmails p w)
              = w\<lparr>trace := trace w @ [AuthGetOwnServiceCredentials, AuthGetPluginRequestToken,
                                      CatalogGetEntities]\<rparr> \<and>
            fst (getBroadcastEmails p w)
              = fst (getBroadcastEmails (p\<lparr>cache := True\<rparr>) (w\<lparr>cache_store := []\<rparr>)) \<and>
            (\<exists>ret. fst (getBroadcastEmails p w) = Inr ret \<and> distinct ret \<and>
                   set ret = {a. a \<noteq> [] \<and> (\<exists>e \<in> set items. entity_email e = Some a)}))"
proof -
  have tok: "\<And>w'. getCatalogToken p w'
      = (Inr token, emit AuthGetPluginRequestToken (emit AuthGetOwnServiceCredentials w'))"
    using assms(2,3) by (simp add: getCatalogToken_def Let_def)
  have tok': "\<And>w'. getCatalogToken (p\<lparr>cache := True\<rparr>) w'
      = (Inr token, emit AuthGetPluginRequestToken (emit AuthGetOwnServiceCredentials w'))"
    using assms(2,3) by (simp add: getCatalogToken_def Let_def)
  have targeted: "\<forall>ent. getEntityByRef (catalog p) r token = Inr ent \<longrightarrow>
            snd (getUserEmail p r w)
              = w\<lparr>trace := trace w @ [AuthGetOwnServiceCredentials, AuthGetPluginRequestToken,
                                      CatalogGetEntityByRef r]\<rparr> \<and>
            fst (getUserEmail p r w)
              = fst (getUserEmail (p\<lparr>cache := True\<rparr>) r (w\<lparr>cache_store := []\<rparr>)) \<and>
            (\<exists>ret. fst (getUserEmail p r w) = Inr ret \<and> distinct ret \<and>
                   set ret = {a. a \<noteq> [] \<and> (\<exists>e. ent = Some e \<and> entity_email e = Some a)})"
    using assms(1)
    by (auto simp: getUserEmail_def tok tok' cache_get_def cache_set_def emit_def truthy_def Let_def
        split: option.splits)
  have broadcast: "\<forall>bc items. broadcastConfig p = Some bc \<and> getString bc ''receiver'' = Inr ''users'' \<and>
                     getEntities (catalog p) token = Inr items \<longrightarrow>
            snd (getBroadcastEmails p w)
              = w\<lparr>trace := trace w @ [AuthGetOwnServiceCredentials, AuthGetPluginRequestToken,
                                      CatalogGetEntities]\<rparr> \<and>
            fst (getBroadcastEmails p w)
              = fst (getBroadcastEmails (p\<lparr>cache := True\<rparr>) (w\<lparr>cache_store := []\<rparr>)) \<and>
            (\<exists>ret. fst (getBroadcastEmails p w) = Inr ret \<and> distinct ret \<and>
                   set ret = {a. a \<noteq> [] \<and> (\<exists>e \<in> set items. entity_email e = Some a)})"
    using assms(1)
    by (auto simp: getBroadcastEmails_def tok tok' cache_get_def cache_set_def emit_def Let_def
        set_compact set_new_Set distinct_compact distinct_new_Set Some_in_image_email)
  show ?thesis using targeted broadcast by blast
qed

theorem no_cache_resolution_witness:
  "snd (getUserEmail (example_processor\<lparr>cache := False\<rparr>) (Ref ''user:default/ann'') empty_world)
     = empty_world\<lparr>trace := [AuthGetOwnServiceCredentials, AuthGetPluginRequestToken,
                             CatalogGetEntityByRef (Ref ''user:default/ann'')]\<rparr> \<and>
   (\<exists>ret. fst (getUserEmail (example_processor\<lparr>cache := False\<rparr>) (Ref ''user:default/ann'')
                 empty_world) = Inr ret \<and>
          set ret = {''ann@x''}) \<and>
   snd (getBroadcastEmails
          (example_processor\<lparr>cache := False,
                              broadcastConfig := Some [(''receiver'', ConfigString ''users'')]\<rparr>)
          empty_world)
     = empty_world\<lparr>trace := [AuthGetOwnServiceCredentials, AuthGetPluginRequestToken,
                             CatalogGetEntities]\<rparr> \<and>
   (\<exists>ret. fst (getBroadcastEmails
                 (example_processor\<lparr>cache := False,
                                     broadcastConfig := Some [(''receiver'', ConfigString ''users'')]\<rparr>)
                 empty_world) = Inr ret \<and>
          set ret = {''team@x'', ''ann@x''})"
proof -
  let ?p = "example_processor\<lparr>cache := False\<rparr>"
  let ?q = "example_processor\<lparr>cache := False,
                              broadcastConfig := Some [(''receiver'', ConfigString ''users'')]\<rparr>"
  let ?r = "Ref ''user:default/ann''"
  let ?ann = "\<lparr>spec_profile = Some \<lparr>email = Some ''ann@x''\<rparr>\<rparr>"
  let ?items = "[\<lparr>spec_profile = Some \<lparr>email = Some ''team@x''\<rparr>\<rparr>, ?ann,
                 \<lparr>spec_profile = Some \<lparr>email = Some ''team@x''\<rparr>\<rparr>]"
  have p1: "\<not> cache ?p" and q1: "\<not> cache ?q"
    by (simp_all add: example_processor_def)
  have p2: "getOwnServiceCredentials (auth ?p) = Inr ''credentials''"
    and q2: "getOwnServiceCredentials (auth ?q) = Inr ''credentials''"
    by (simp_all add: example_processor_def example_auth_def)
  have p3: "getPluginRequestToken (auth ?p) ''credentials'' ''catalog'' = Inr ''token''"
    and q3: "getPluginRequestToken (auth ?q) ''credentials'' ''catalog'' = Inr ''token''"
    by (simp_all add: example_processor_def example_auth_def)
  have p4: "getEntityByRef (catalog ?p) ?r ''token'' = Inr (Some ?ann)"
    by (simp add: example_processor_def example_catalog_def)
  have q4: "broadcastConfig ?q = Some [(''receiver'', ConfigString ''users'')] \<and>
            getString [(''receiver'', ConfigString ''users'')] ''receiver'' = Inr ''users'' \<and>
            getEntities (catalog ?q) ''token'' = Inr ?items"
    by (simp add: example_processor_def example_catalog_def getString_def)
  note t = no_cache_resolution [of ?p "''credentials''" "''token''" ?r empty_world,
      OF p1 p2 p3, THEN conjunct1, rule_format, OF p4]
  note b = no_cache_resolution [of ?q "''credentials''" "''token''" ?r empty_world,
      OF q1 q2 q3, THEN conjunct2, rule_format, OF q4]
  have s1: "{a. a \<noteq> [] \<and> (\<exists>e. Some ?ann = Some e \<and> entity_email e = Some a)} = {''ann@x''}"
    by (auto simp: entity_email_def)
  have s2: "{a. a \<noteq> [] \<and> (\<exists>e \<in> set ?items. entity_email e = Some a)} = {''team@x'', ''ann@x''}"
    by (auto simp: entity_email_def)
  have e: "trace empty_world = []"
    by (simp add: empty_world_def)
  have t1: "snd (getUserEmail ?p ?r empty_world)
       = empty_world\<lparr>trace := [AuthGetOwnServiceCredentials, AuthGetPluginRequestToken,
                               CatalogGetEntityByRef ?r]\<rparr>"
    using t [THEN conjunct1] by (simp only: e append_Nil)
  have t2: "\<exists>ret. fst (getUserEmail ?p ?r empty_world) = Inr ret \<and> set ret = {''ann@x''}"
    using t [THEN conjunct2, THEN conjunct2] unfolding s1 by blast
  have b1: "snd (getBroadcastEmails ?q empty_world)
       = empty_world\<lparr>trace := [AuthGetOwnServiceCredentials, AuthGetPluginRequestToken,
                               CatalogGetEntities]\<rparr>"
    using b [THEN conjunct1] by (simp only: e append_Nil)
  have b2: "\<exists>ret. fst (getBroadcastEmails ?q empty_world) = Inr ret \<and>
                   set ret = {''team@x'', ''ann@x''}"
    using b [THEN conjunct2, THEN conjunct2] unfolding s2 by blast
  show ?thesis
    using t1 t2 b1 b2 by (intro conjI)
qed

end
